theory Spec2Isabelle
  imports Main "HOL-Library.Sublist"
begin

section \<open>Python values, exceptions and outcomes\<close>

text \<open>
  \<open>api.py\<close> is a FastAPI gateway in front of an external retrieval engine
  (\<open>embedchain\<close>), a backend client (\<open>supabase\<close>) and the standard library
  (\<open>hmac\<close>, \<open>hashlib\<close>, \<open>random\<close>, \<open>os\<close>).  The embedding below follows the file
  function by function.  A Python \<open>bytes\<close> object and a header value (which Starlette
  decodes from latin-1, one code point per byte) are both lists of 8-bit characters.
\<close>

type_synonym bytes = string

text \<open>
  Exceptions raised by the libraries.  A constructor stands for the class and all its
  subclasses and carries \<open>str(e)\<close>.  \<open>NonException\<close> is a \<open>BaseException\<close> that is not an
  \<open>Exception\<close> (\<open>KeyboardInterrupt\<close>, \<open>SystemExit\<close>, \<open>CancelledError\<close>): the handlers'
  \<open>except Exception\<close> clauses do not catch it.
\<close>

datatype py_exn =
    ValueError string
  | TypeError string
  | AttributeError string
  | OtherException string
  | NonException string

fun str_exn :: "py_exn \<Rightarrow> string" where
  "str_exn (ValueError m) = m"
| "str_exn (TypeError m) = m"
| "str_exn (AttributeError m) = m"
| "str_exn (OtherException m) = m"
| "str_exn (NonException m) = m"

fun is_ValueError :: "py_exn \<Rightarrow> bool" where
  "is_ValueError (ValueError m) = True"
| "is_ValueError e = False"

fun is_Exception :: "py_exn \<Rightarrow> bool" where
  "is_Exception (NonException m) = False"
| "is_Exception e = True"

text \<open>
  What leaves a handler when it does not return: an \<open>HTTPException\<close> with its status
  code and detail, or an exception nothing caught (the framework answers 500).
\<close>

datatype failure = HTTPException nat string | Uncaught py_exn

type_synonym 'a outcome = "failure + 'a"

section \<open>The external collaborators\<close>

text \<open>
  An engine handle is a Python object; the model keeps its identity, the number of
  the allocation that created it.
\<close>

type_synonym handle = nat

type_synonym metadata = "(string \<times> string) list"

text \<open>The first argument of \<open>add\<close>: a string, or the tuple \<open>(question, answer)\<close>.\<close>

datatype source = Locator string | Pair string string

text \<open>
  Everything the file calls and does not define, as functions over an opaque external
  state \<open>'x\<close> (the engine's indexes, the backend, the random generator); \<open>'d\<close> is the type
  of the documents the engine returns.  A call either raises (\<open>Inl\<close>) or returns.
  \<^item> \<open>getenv_HMAC_SECRET\<close> is \<open>os.getenv("HMAC_SECRET")\<close>, \<open>None\<close> when unset;
  \<^item> \<open>hmac_sha256_digest key msg\<close> is the 32-byte digest of \<open>hmac.new(key, msg, hashlib.sha256)\<close>;
  \<^item> \<open>random_random\<close> draws the numerator \<open>r\<close> of \<open>random.random() = r / 2^53\<close>;
  \<^item> \<open>from_config\<close> is \<open>EmbedChainApp.from_config(config_path="config.yaml")\<close>;
  \<^item> \<open>app_search\<close>, \<open>app_add\<close>, \<open>app_list_data\<close>, \<open>app_delete_data\<close> are the methods of
    the engine object with the given handle;
  \<^item> \<open>create_client url key\<close> and \<open>insert_execute url key table row\<close> are
    \<open>supabase.create_client\<close> and \<open>client.table(table).insert(row).execute()\<close>.
\<close>

record ('x, 'd) externals =
  getenv_HMAC_SECRET :: "string option"
  hmac_sha256_digest :: "bytes \<Rightarrow> bytes \<Rightarrow> bytes"
  random_random :: "'x \<Rightarrow> nat \<times> 'x"
  from_config :: "'x \<Rightarrow> (py_exn + unit) \<times> 'x"
  app_search :: "handle \<Rightarrow> string \<Rightarrow> nat \<Rightarrow> metadata \<Rightarrow> 'x \<Rightarrow> (py_exn + 'd list) \<times> 'x"
  app_add :: "handle \<Rightarrow> source \<Rightarrow> string \<Rightarrow> metadata \<Rightarrow> 'x \<Rightarrow> (py_exn + unit) \<times> 'x"
  app_list_data :: "handle \<Rightarrow> metadata \<Rightarrow> 'x \<Rightarrow> (py_exn + 'd list) \<times> 'x"
  app_delete_data :: "handle \<Rightarrow> string \<Rightarrow> metadata \<Rightarrow> 'x \<Rightarrow> (py_exn + unit) \<times> 'x"
  create_client :: "string \<Rightarrow> string \<Rightarrow> 'x \<Rightarrow> (py_exn + unit) \<times> 'x"
  insert_execute :: "string \<Rightarrow> string \<Rightarrow> string \<Rightarrow> (string \<times> string) list \<Rightarrow> 'x \<Rightarrow> (py_exn + unit) \<times> 'x"

section \<open>The process state\<close>

text \<open>
  The calls a request makes, in order.  The trace is a ghost field: no function
  reads it.
\<close>

datatype call =
    Search string nat metadata
  | Add source string metadata
  | ListData metadata
  | DeleteData string metadata

datatype event =
    SignatureCheck
  | Resolve string
  | Construct handle
  | EngineCall handle call
  | GenerateId string
  | CreateClient string string
  | InsertRow string "(string \<times> string) list"

text \<open>
  \<open>workspace_apps\<close> is the module-level dictionary of line 41; \<open>allocated\<close> counts the
  engine objects constructed so far, so that a new object differs from every earlier one.
\<close>

record 'x world =
  workspace_apps :: "string \<rightharpoonup> handle"
  allocated :: nat
  external :: 'x
  trace :: "event list"

definition startup :: "'x \<Rightarrow> 'x world" where
  "startup x = \<lparr>workspace_apps = Map.empty, allocated = 0, external = x, trace = []\<rparr>"

definition note_event :: "event \<Rightarrow> 'x world \<Rightarrow> 'x world" where
  "note_event ev s = s\<lparr>trace := trace s @ [ev]\<rparr>"

text \<open>An external call made from state \<open>s\<close>: the external state moves, the event is noted.\<close>

definition external_call :: "event \<Rightarrow> ('x \<Rightarrow> 'r \<times> 'x) \<Rightarrow> 'x world \<Rightarrow> 'r \<times> 'x world" where
  "external_call ev f s =
     (case f (external s) of (r, x) \<Rightarrow> (r, s\<lparr>external := x, trace := trace s @ [ev]\<rparr>))"

section \<open>Helper functions (lines 45--67)\<close>

definition ascii_letters :: string where
  "ascii_letters = ''abcdefghijklmnopqrstuvwxyzABCDEFGHIJKLMNOPQRSTUVWXYZ''"

definition digits :: string where
  "digits = ''0123456789''"

text \<open>
  \<open>random.choices(population, k=k)\<close> is
  \<open>[population[floor(random() * n)] for i in repeat(None, k)]\<close>, after \<open>n = len(population)\<close>
  and \<open>n += 0.0\<close>.  The arithmetic is IEEE binary64, modelled exactly on integers:
  \<^item> \<open>random()\<close> is \<open>r / 2^53\<close> for the 53-bit draw \<open>r\<close>, a value binary64 holds exactly;
  \<^item> \<open>n += 0.0\<close> converts \<open>n\<close> to the nearest binary64 value, \<open>round_binary64 n\<close>;
  \<^item> the product of two binary64 values is their exact product rounded to 53
    significant bits, ties to even: \<open>round_binary64 (r * n) / 2^53\<close> (scaling by a power
    of two does not change the rounding; no product here underflows or overflows);
  \<^item> \<open>floor\<close> of that quotient is the integer division by \<open>2^53\<close>.

  \<open>bit_length\<close> is Python's \<open>int.bit_length\<close>.  Iterating a string yields its
  one-character strings.  The only population in the file is the 62-character
  alphabet; an empty one, for which Python raises \<open>IndexError\<close>, does not occur.
\<close>

fun bit_length :: "nat \<Rightarrow> nat" where
  "bit_length n = (if n = 0 then 0 else bit_length (n div 2) + 1)"

declare bit_length.simps [simp del]

definition round_binary64 :: "nat \<Rightarrow> nat" where
  "round_binary64 p =
     (if bit_length p \<le> 53 then p
      else (let e = bit_length p - 53; q = p div 2 ^ e; rest = p mod 2 ^ e; half = 2 ^ (e - 1)
            in if half < rest \<or> (rest = half \<and> odd q) then (q + 1) * 2 ^ e else q * 2 ^ e))"

definition random_index :: "nat \<Rightarrow> nat \<Rightarrow> nat" where
  "random_index r n = round_binary64 ((r mod 2 ^ 53) * round_binary64 n) div 2 ^ 53"

fun choices :: "('x \<Rightarrow> nat \<times> 'x) \<Rightarrow> 'a list \<Rightarrow> nat \<Rightarrow> 'x \<Rightarrow> 'a list \<times> 'x" where
  "choices rnd population 0 x = ([], x)"
| "choices rnd population (Suc k) x =
     (case rnd x of (r, x1) \<Rightarrow>
        (case choices rnd population k x1 of (rest, x2) \<Rightarrow>
           (population ! random_index r (length population) # rest, x2)))"

definition generate_workspace_id :: "('x, 'd) externals \<Rightarrow> 'x \<Rightarrow> string \<times> 'x" where
  "generate_workspace_id ext x =
     (case choices (random_random ext) (map (\<lambda>c. [c]) (ascii_letters @ digits)) 12 x of
        (picked, x') \<Rightarrow> (concat picked, x'))"

text \<open>
  \<open>get_workspace_app(workspace_id)\<close>.  The constructor may raise; its call sites are
  outside every \<open>try\<close>, so the exception leaves the endpoint uncaught and the
  dictionary is not written.  When it returns, the new object is the next allocation.
\<close>

definition get_workspace_app ::
    "('x, 'd) externals \<Rightarrow> string \<Rightarrow> 'x world \<Rightarrow> handle outcome \<times> 'x world" where
  "get_workspace_app ext w s0 =
     (let s = note_event (Resolve w) s0 in
      case workspace_apps s w of
        Some h \<Rightarrow> (Inr h, s)
      | None \<Rightarrow>
          (case external_call (Construct (allocated s)) (from_config ext) s of
             (Inl e, s1) \<Rightarrow> (Inl (Uncaught e), s1)
           | (Inr _, s1) \<Rightarrow>
               (let h = allocated s1;
                    s2 = s1\<lparr>allocated := Suc h,
                            workspace_apps := (workspace_apps s1)(w \<mapsto> h)\<rparr>
                in (Inr h, s2))))"

text \<open>\<open>HMAC.hexdigest()\<close>: two lowercase hexadecimal digits for each byte of the digest.\<close>

definition hexdigit :: "nat \<Rightarrow> char" where
  "hexdigit n = ''0123456789abcdef'' ! n"

definition hex_byte :: "char \<Rightarrow> string" where
  "hex_byte c = [hexdigit (of_char c div 16), hexdigit (of_char c mod 16)]"

definition hexdigest :: "bytes \<Rightarrow> string" where
  "hexdigest d = concat (map hex_byte d)"

text \<open>
  \<open>hmac.compare_digest(a, b)\<close> on two \<open>str\<close> arguments: \<open>a == b\<close> when both are ASCII,
  and a \<open>TypeError\<close> otherwise.
\<close>

definition isascii :: "char \<Rightarrow> bool" where
  "isascii c = (of_char c < (128::nat))"

definition compare_digest :: "string \<Rightarrow> string \<Rightarrow> py_exn + bool" where
  "compare_digest a b =
     (if list_all isascii a \<and> list_all isascii b then Inr (a = b)
      else Inl (TypeError ''comparing strings with non-ASCII characters is not supported''))"

text \<open>The raw request: the \<open>X-Signature\<close> header (\<open>None\<close> when absent) and the body.\<close>

record Request =
  x_signature :: "string option"
  body :: bytes

text \<open>
  \<open>verify_hmac_signature(request, secret_key)\<close>.  \<open>not signature\<close> holds for \<open>None\<close> and
  for the empty string.  With \<open>secret_key = None\<close>, \<open>secret_key.encode()\<close> raises an
  \<open>AttributeError\<close>; otherwise the key is taken as its encoded bytes.
\<close>

definition verify_hmac_signature ::
    "(bytes \<Rightarrow> bytes \<Rightarrow> bytes) \<Rightarrow> Request \<Rightarrow> string option \<Rightarrow> unit outcome" where
  "verify_hmac_signature digest request secret_key =
     (case x_signature request of
        None \<Rightarrow> Inl (HTTPException 403 ''Signature missing'')
      | Some signature \<Rightarrow>
          if signature = [] then Inl (HTTPException 403 ''Signature missing'')
          else
            (case secret_key of
               None \<Rightarrow>
                 Inl (Uncaught (AttributeError
                   (CHR 0x27 # ''NoneType'' @ CHR 0x27 # '' object has no attribute '' @
                    CHR 0x27 # ''encode'' @ [CHR 0x27])))
             | Some key \<Rightarrow>
                 (let computed_signature = hexdigest (digest key (body request)) in
                  case compare_digest computed_signature signature of
                    Inl e \<Rightarrow> Inl (Uncaught e)
                  | Inr same \<Rightarrow>
                      if \<not> same then Inl (HTTPException 403 ''Invalid signature'')
                      else Inr ())))"

section \<open>Request models (lines 71--99)\<close>

record QuestionRequest =
  question :: string
  session_id :: string
  workspace_id :: string
  supabase_url :: string
  supabase_key :: string

record TrainRequest =
  file_url :: string
  data_type :: string
  workspace_id :: string
  supabase_url :: string
  supabase_key :: string

record QnARequest =
  question :: string
  answer :: string
  data_type :: string
  workspace_id :: string
  supabase_url :: string
  supabase_key :: string

record WorkspaceCreateRequest =
  workspace_name :: string
  supabase_url :: string
  supabase_key :: string

section \<open>Endpoints (lines 103--195)\<close>

text \<open>
  The first statement of every data endpoint:
  \<open>await verify_hmac_signature(req, os.getenv("HMAC_SECRET"))\<close>.
\<close>

definition check_signature ::
    "('x, 'd) externals \<Rightarrow> Request \<Rightarrow> 'x world \<Rightarrow> unit outcome \<times> 'x world" where
  "check_signature ext req s =
     (verify_hmac_signature (hmac_sha256_digest ext) req (getenv_HMAC_SECRET ext),
      note_event SignatureCheck s)"

text \<open>\<open>except Exception as e: raise HTTPException(status_code=500, detail=str(e))\<close>\<close>

definition except_Exception :: "py_exn \<Rightarrow> failure" where
  "except_Exception e = (if is_Exception e then HTTPException 500 (str_exn e) else Uncaught e)"

text \<open>
  \<open>except ValueError as ve: raise HTTPException(status_code=422, detail=str(ve))\<close>,
  then the clause above.
\<close>

definition except_ValueError_Exception :: "py_exn \<Rightarrow> failure" where
  "except_ValueError_Exception e =
     (if is_ValueError e then HTTPException 422 (str_exn e) else except_Exception e)"

definition workspace_filter :: "string \<Rightarrow> metadata" where
  "workspace_filter w = [(''workspace_id'', w)]"

definition call_search ::
    "('x, 'd) externals \<Rightarrow> handle \<Rightarrow> string \<Rightarrow> nat \<Rightarrow> metadata \<Rightarrow> 'x world
      \<Rightarrow> (py_exn + 'd list) \<times> 'x world" where
  "call_search ext h q n md = external_call (EngineCall h (Search q n md)) (app_search ext h q n md)"

definition call_add ::
    "('x, 'd) externals \<Rightarrow> handle \<Rightarrow> source \<Rightarrow> string \<Rightarrow> metadata \<Rightarrow> 'x world
      \<Rightarrow> (py_exn + unit) \<times> 'x world" where
  "call_add ext h src dt md = external_call (EngineCall h (Add src dt md)) (app_add ext h src dt md)"

definition call_list_data ::
    "('x, 'd) externals \<Rightarrow> handle \<Rightarrow> metadata \<Rightarrow> 'x world \<Rightarrow> (py_exn + 'd list) \<times> 'x world" where
  "call_list_data ext h md = external_call (EngineCall h (ListData md)) (app_list_data ext h md)"

definition call_delete_data ::
    "('x, 'd) externals \<Rightarrow> handle \<Rightarrow> string \<Rightarrow> metadata \<Rightarrow> 'x world
      \<Rightarrow> (py_exn + unit) \<times> 'x world" where
  "call_delete_data ext h name md =
     external_call (EngineCall h (DeleteData name md)) (app_delete_data ext h name md)"

text \<open>\<open>POST /api/workspace\<close>: no statement of it is inside a \<open>try\<close>.\<close>

definition create_workspace ::
    "('x, 'd) externals \<Rightarrow> WorkspaceCreateRequest \<Rightarrow> 'x world
      \<Rightarrow> (string \<times> string) list outcome \<times> 'x world" where
  "create_workspace ext request s0 =
     (case generate_workspace_id ext (external s0) of
        (w, x1) \<Rightarrow>
          (let s1 = s0\<lparr>external := x1, trace := trace s0 @ [GenerateId w]\<rparr>;
               url = WorkspaceCreateRequest.supabase_url request;
               key = WorkspaceCreateRequest.supabase_key request;
               row = [(''workspace_id'', w),
                      (''workspace_name'', workspace_name request)]
           in case external_call (CreateClient url key) (create_client ext url key) s1 of
                (Inl e, s2) \<Rightarrow> (Inl (Uncaught e), s2)
              | (Inr _, s2) \<Rightarrow>
                  (case external_call (InsertRow ''workspaces'' row)
                          (insert_execute ext url key ''workspaces'' row) s2 of
                     (Inl e, s3) \<Rightarrow> (Inl (Uncaught e), s3)
                   | (Inr _, s3) \<Rightarrow>
                       (Inr [(''workspace_id'', w),
                             (''workspace_name'', workspace_name request)], s3))))"

text \<open>\<open>POST /api/data\<close>\<close>

definition get_data ::
    "('x, 'd) externals \<Rightarrow> QuestionRequest \<Rightarrow> Request \<Rightarrow> 'x world
      \<Rightarrow> 'd list outcome \<times> 'x world" where
  "get_data ext request req s0 =
     (case check_signature ext req s0 of
        (Inl f, s) \<Rightarrow> (Inl f, s)
      | (Inr _, s) \<Rightarrow>
          (let q = QuestionRequest.question request;
               w = QuestionRequest.workspace_id request
           in case get_workspace_app ext w s of
                (Inl f, s1) \<Rightarrow> (Inl f, s1)
              | (Inr app_instance, s1) \<Rightarrow>
                  (case call_search ext app_instance q 5 (workspace_filter w) s1 of
                     (Inl e, s2) \<Rightarrow> (Inl (except_Exception e), s2)
                   | (Inr ans, s2) \<Rightarrow>
                       if length ans = 0 then
                         (case call_search ext app_instance q 5 (workspace_filter w) s2 of
                            (Inl e, s3) \<Rightarrow> (Inl (except_Exception e), s3)
                          | (Inr ans', s3) \<Rightarrow> (Inr ans', s3))
                       else (Inr ans, s2))))"

text \<open>\<open>POST /api/train\<close>: the handle is resolved (line 140) before the fields are checked (line 142).\<close>

definition train ::
    "('x, 'd) externals \<Rightarrow> TrainRequest \<Rightarrow> Request \<Rightarrow> 'x world
      \<Rightarrow> (string \<times> string) list outcome \<times> 'x world" where
  "train ext request req s0 =
     (case check_signature ext req s0 of
        (Inl f, s) \<Rightarrow> (Inl f, s)
      | (Inr _, s) \<Rightarrow>
          (let url = TrainRequest.file_url request;
               dt = TrainRequest.data_type request;
               w = TrainRequest.workspace_id request
           in case get_workspace_app ext w s of
                (Inl f, s1) \<Rightarrow> (Inl f, s1)
              | (Inr app_instance, s1) \<Rightarrow>
                  if url = [] \<or> dt = [] then
                    (Inl (HTTPException 400 ''Both 'file_url' and 'data_type' are required''), s1)
                  else
                    (case call_add ext app_instance (Locator url) dt (workspace_filter w) s1 of
                       (Inl e, s2) \<Rightarrow> (Inl (except_Exception e), s2)
                     | (Inr _, s2) \<Rightarrow>
                         (Inr [(''status'', ''Training data added successfully'')], s2))))"

text \<open>\<open>POST /api/train/qna\<close>\<close>

definition train_qna ::
    "('x, 'd) externals \<Rightarrow> QnARequest \<Rightarrow> Request \<Rightarrow> 'x world
      \<Rightarrow> (string \<times> string) list outcome \<times> 'x world" where
  "train_qna ext request req s0 =
     (case check_signature ext req s0 of
        (Inl f, s) \<Rightarrow> (Inl f, s)
      | (Inr _, s) \<Rightarrow>
          (let q = QnARequest.question request;
               a = QnARequest.answer request;
               dt = QnARequest.data_type request;
               w = QnARequest.workspace_id request
           in case get_workspace_app ext w s of
                (Inl f, s1) \<Rightarrow> (Inl f, s1)
              | (Inr app_instance, s1) \<Rightarrow>
                  (case call_add ext app_instance (Pair q a) dt (workspace_filter w) s1 of
                     (Inl e, s2) \<Rightarrow> (Inl (except_ValueError_Exception e), s2)
                   | (Inr _, s2) \<Rightarrow> (Inr [(''status'', ''Q&A pair added successfully'')], s2))))"

text \<open>\<open>GET /api/data/list/{workspace_id}\<close>\<close>

definition list_data ::
    "('x, 'd) externals \<Rightarrow> string \<Rightarrow> Request \<Rightarrow> 'x world
      \<Rightarrow> (string \<times> 'd list) list outcome \<times> 'x world" where
  "list_data ext w req s0 =
     (case check_signature ext req s0 of
        (Inl f, s) \<Rightarrow> (Inl f, s)
      | (Inr _, s) \<Rightarrow>
          (case get_workspace_app ext w s of
             (Inl f, s1) \<Rightarrow> (Inl f, s1)
           | (Inr app_instance, s1) \<Rightarrow>
               (case call_list_data ext app_instance (workspace_filter w) s1 of
                  (Inl e, s2) \<Rightarrow> (Inl (except_Exception e), s2)
                | (Inr data_list, s2) \<Rightarrow> (Inr [(''data'', data_list)], s2))))"

text \<open>
  \<open>DELETE /api/data/delete/{workspace_id}\<close>; \<open>supabase_url\<close> and \<open>supabase_key\<close> are
  parameters the body never uses.  In the endpoints \<open>w\<close> is the source's \<open>workspace_id\<close>,
  \<open>q\<close> its \<open>question\<close>, \<open>a\<close> its \<open>answer\<close>, \<open>dt\<close> its \<open>data_type\<close> (the names are
  taken by the fields of the request models).
\<close>

definition delete_data ::
    "('x, 'd) externals \<Rightarrow> string \<Rightarrow> string \<Rightarrow> string \<Rightarrow> string \<Rightarrow> Request \<Rightarrow> 'x world
      \<Rightarrow> (string \<times> string) list outcome \<times> 'x world" where
  "delete_data ext w file_name url key req s0 =
     (case check_signature ext req s0 of
        (Inl f, s) \<Rightarrow> (Inl f, s)
      | (Inr _, s) \<Rightarrow>
          (case get_workspace_app ext w s of
             (Inl f, s1) \<Rightarrow> (Inl f, s1)
           | (Inr app_instance, s1) \<Rightarrow>
               (case call_delete_data ext app_instance file_name (workspace_filter w) s1 of
                  (Inl e, s2) \<Rightarrow> (Inl (except_Exception e), s2)
                | (Inr _, s2) \<Rightarrow>
                    (Inr [(''status'', ''Data '' @ file_name @ '' deleted successfully'')], s2))))"

section \<open>Traces, reachable states and a concrete instance\<close>

text \<open>The events a request adds to the trace, and the engine calls among them.\<close>

definition new_events :: "'x world \<Rightarrow> 'x world \<Rightarrow> event list" where
  "new_events s s' = drop (length (trace s)) (trace s')"

fun engine_calls :: "event list \<Rightarrow> (handle \<times> call) list" where
  "engine_calls [] = []"
| "engine_calls (EngineCall h c # evs) = (h, c) # engine_calls evs"
| "engine_calls (ev # evs) = engine_calls evs"

text \<open>
  The states of a running process: it starts with the empty dictionary and serves one
  request after another; between two requests the outside world may change.
\<close>

inductive reachable :: "('x, 'd) externals \<Rightarrow> 'x world \<Rightarrow> bool" for ext :: "('x, 'd) externals" where
  at_startup: "reachable ext (startup x)"
| outside: "reachable ext s \<Longrightarrow> reachable ext (s\<lparr>external := x\<rparr>)"
| after_create_workspace:
    "reachable ext s \<Longrightarrow> reachable ext (snd (create_workspace ext request s))"
| after_get_data:
    "reachable ext s \<Longrightarrow> reachable ext (snd (get_data ext question_request req s))"
| after_train:
    "reachable ext s \<Longrightarrow> reachable ext (snd (train ext train_request req s))"
| after_train_qna:
    "reachable ext s \<Longrightarrow> reachable ext (snd (train_qna ext qna_request req s))"
| after_list_data:
    "reachable ext s \<Longrightarrow> reachable ext (snd (list_data ext w req s))"
| after_delete_data:
    "reachable ext s \<Longrightarrow> reachable ext (snd (delete_data ext w file_name url key req s))"

text \<open>
  The dictionary never holds one object under two keys, and every object in it was
  allocated before.
\<close>

definition cache_ok :: "'x world \<Rightarrow> bool" where
  "cache_ok s =
     ((\<forall>w1 w2 h. workspace_apps s w1 = Some h \<and> workspace_apps s w2 = Some h \<longrightarrow> w1 = w2) \<and>
      (\<forall>w h. workspace_apps s w = Some h \<longrightarrow> h < allocated s))"

text \<open>
  A request was checked first: the first event it adds is the signature check, no
  second check follows, and when the check does not pass nothing else happens: no
  further event, the dictionary and the outside world as before.
\<close>

definition checked_first :: "('x, 'd) externals \<Rightarrow> Request \<Rightarrow> 'x world \<Rightarrow> 'x world \<Rightarrow> bool" where
  "checked_first ext req s s' =
     (case new_events s s' of
        [] \<Rightarrow> False
      | ev # evs \<Rightarrow>
          ev = SignatureCheck \<and> SignatureCheck \<notin> set evs \<and>
          (verify_hmac_signature (hmac_sha256_digest ext) req (getenv_HMAC_SECRET ext) \<noteq> Inr () \<longrightarrow>
             evs = [] \<and> workspace_apps s' = workspace_apps s \<and> external s' = external s))"

text \<open>
  A concrete instance of the collaborators, to run the endpoints on.  Its external
  state is a counter that every search and every random draw advances: a search at
  count 0 finds nothing, a later one finds the question itself.  The digest is a
  stand-in (key and message concatenated); \<open>add\<close> rejects the data type \<open>bad\<close> with a
  \<open>ValueError\<close> and the type \<open>down\<close> with a \<open>ConnectionError\<close>; everything else
  succeeds.
\<close>

definition sample :: "(nat, string) externals" where
  "sample =
     \<lparr>getenv_HMAC_SECRET = Some ''k'',
      hmac_sha256_digest = (\<lambda>key msg. key @ msg),
      random_random = (\<lambda>x. (x * 700000000000000, Suc x)),
      from_config = (\<lambda>x. (Inr (), x)),
      app_search = (\<lambda>h q n md x. (Inr (if x = 0 then [] else [q]), Suc x)),
      app_add = (\<lambda>h src dt md x.
         (if dt = ''bad'' then Inl (ValueError ''Invalid data type'')
          else if dt = ''down'' then Inl (OtherException ''Connection refused'')
          else Inr (), x)),
      app_list_data = (\<lambda>h md x. (Inr [], x)),
      app_delete_data = (\<lambda>h name md x. (Inr (), x)),
      create_client = (\<lambda>url key x. (Inr (), x)),
      insert_execute = (\<lambda>url key table row x. (Inr (), x))\<rparr>"

text \<open>A request with body \<open>{}\<close>, signed under the key \<open>k\<close> of the instance above.\<close>

definition signed :: Request where
  "signed = \<lparr>x_signature = Some ''6b7b7d'', body = ''{}''\<rparr>"

definition unsigned :: Request where
  "unsigned = \<lparr>x_signature = None, body = ''{}''\<rparr>"

text \<open>Requests for the workspace \<open>w1\<close>.\<close>

definition ask :: QuestionRequest where
  "ask = \<lparr>QuestionRequest.question = ''What is it?'', session_id = ''s1'', workspace_id = ''w1'',
           supabase_url = ''u'', supabase_key = ''p''\<rparr>"

definition teach :: "string \<Rightarrow> string \<Rightarrow> TrainRequest" where
  "teach url dt = \<lparr>file_url = url, TrainRequest.data_type = dt, workspace_id = ''w1'',
                    supabase_url = ''u'', supabase_key = ''p''\<rparr>"

definition teach_pair :: "string \<Rightarrow> QnARequest" where
  "teach_pair dt = \<lparr>QnARequest.question = ''What is it?'', answer = ''A gateway'',
                     data_type = dt, workspace_id = ''w1'',
                     supabase_url = ''u'', supabase_key = ''p''\<rparr>"

definition found :: WorkspaceCreateRequest where
  "found = \<lparr>workspace_name = ''Docs'', supabase_url = ''u'', supabase_key = ''p''\<rparr>"

section \<open>Signature verification\<close>

lemma hexdigit_ascii: "n < 16 \<Longrightarrow> isascii (hexdigit n)"
proof -
  assume n: "n < 16"
  have "list_all isascii ''0123456789abcdef''" by (simp add: isascii_def)
  then have "\<forall>i < length ''0123456789abcdef''. isascii (''0123456789abcdef'' ! i)"
    unfolding list_all_length .
  with n show ?thesis by (simp add: hexdigit_def)
qed

lemma hex_byte_ascii: "list_all isascii (hex_byte c)"
proof -
  have "(of_char c :: nat) < 256" by (rule nat_of_char_less_256)
  then have "(of_char c :: nat) div 16 < 16" by arith
  moreover have "(of_char c :: nat) mod 16 < 16" by simp
  ultimately show ?thesis by (simp add: hex_byte_def hexdigit_ascii)
qed

lemma hexdigest_ascii: "list_all isascii (hexdigest d)"
  by (induction d) (simp_all add: hexdigest_def hex_byte_ascii)

text \<open>A request without the header, or with an empty one, is refused whatever its body.\<close>

lemma verify_missing:
  "x_signature req = None \<or> x_signature req = Some [] \<Longrightarrow>
   verify_hmac_signature dg req secret = Inl (HTTPException 403 ''Signature missing'')"
  by (auto simp: verify_hmac_signature_def)

text \<open>
  With a secret configured, an ASCII signature passes exactly when it is the hexadecimal
  digest of the body, and is refused with 403 otherwise.
\<close>

lemma verify_ascii:
  assumes "x_signature req = Some sg" and "sg \<noteq> []" and "list_all isascii sg"
  shows "verify_hmac_signature dg req (Some key) =
     (if sg = hexdigest (dg key (body req)) then Inr ()
      else Inl (HTTPException 403 ''Invalid signature''))"
  using assms
  by (auto simp: verify_hmac_signature_def compare_digest_def hexdigest_ascii Let_def)

text \<open>
  Verification passes for exactly one header value, the digest of the body that was
  sent (a real digest has 32 bytes, so its 64 digits are never the empty string).
\<close>

lemma verify_passes_iff:
  "verify_hmac_signature dg req (Some key) = Inr () \<longleftrightarrow>
   x_signature req = Some (hexdigest (dg key (body req))) \<and> dg key (body req) \<noteq> []"
proof -
  have "hexdigest d = [] \<longleftrightarrow> d = []" for d
    by (cases d) (simp_all add: hexdigest_def hex_byte_def)
  then show ?thesis
    by (auto simp: verify_hmac_signature_def compare_digest_def hexdigest_ascii Let_def
             split: option.splits)
qed

text \<open>
  C3.  The claim: verification raises 403 when the header is absent or when the supplied
  value differs from the hexadecimal HMAC-SHA256 of the body, and raises nothing when
  they are equal.  The code misses one case.  A header value is a latin-1 string, and
  \<open>hmac.compare_digest\<close> refuses a string that is not ASCII: for the one-byte signature
  \<open>0xE9\<close>, which differs from every digest, verification ends in an uncaught
  \<open>TypeError\<close> (a 500 response) and not in the 403 of the neighbouring branch.  The rest
  of the claim holds, see \<open>verify_missing\<close>, \<open>verify_ascii\<close> and \<open>verify_passes_iff\<close>.
\<close>

theorem verify_non_ascii_signature:
  "verify_hmac_signature dg \<lparr>x_signature = Some [CHR 0xE9], body = b\<rparr> (Some key) =
     Inl (Uncaught (TypeError ''comparing strings with non-ASCII characters is not supported''))
   \<and> [CHR 0xE9] \<noteq> hexdigest (dg key b)"
proof -
  have "list_all isascii (hexdigest (dg key b))" by (rule hexdigest_ascii)
  moreover have "\<not> list_all isascii [CHR 0xE9]" by (simp add: isascii_def)
  ultimately have "[CHR 0xE9] \<noteq> hexdigest (dg key b)" by metis
  then show ?thesis
    by (simp add: verify_hmac_signature_def compare_digest_def isascii_def Let_def)
qed

section \<open>The instance cache\<close>

text \<open>The three ways \<open>get_workspace_app\<close> can end.\<close>

lemma get_workspace_app_cases:
  assumes "get_workspace_app ext w s = (r, s')"
  shows "(\<exists>h. workspace_apps s w = Some h \<and> r = Inr h \<and> s' = note_event (Resolve w) s)
       \<or> (\<exists>e x. workspace_apps s w = None \<and> from_config ext (external s) = (Inl e, x)
             \<and> r = Inl (Uncaught e)
             \<and> s' = s\<lparr>external := x, trace := trace s @ [Resolve w, Construct (allocated s)]\<rparr>)
       \<or> (\<exists>x. workspace_apps s w = None \<and> from_config ext (external s) = (Inr (), x)
             \<and> r = Inr (allocated s)
             \<and> s' = s\<lparr>workspace_apps := (workspace_apps s)(w \<mapsto> allocated s),
                      allocated := Suc (allocated s), external := x,
                      trace := trace s @ [Resolve w, Construct (allocated s)]\<rparr>)"
  using assms
  by (auto simp: get_workspace_app_def note_event_def external_call_def Let_def
           split: option.splits prod.splits sum.splits)

lemma cache_ok_startup: "cache_ok (startup x)"
  by (simp add: cache_ok_def startup_def)

lemma cache_ok_insert:
  assumes "cache_ok s" and "workspace_apps s w = None"
  shows "cache_ok (s\<lparr>workspace_apps := (workspace_apps s)(w \<mapsto> allocated s),
                      allocated := Suc (allocated s), external := x, trace := t\<rparr>)"
  using assms unfolding cache_ok_def
  by (auto simp: less_Suc_eq split: if_splits)

lemma cache_ok_note_event [simp]: "cache_ok (note_event ev s) = cache_ok s"
  by (simp add: cache_ok_def note_event_def)

lemma cache_ok_outside [simp]: "cache_ok (s\<lparr>external := x, trace := t\<rparr>) = cache_ok s"
  by (simp add: cache_ok_def)

lemma cache_ok_external_call: "external_call ev f s = (r, s') \<Longrightarrow> cache_ok s' = cache_ok s"
  by (auto simp: external_call_def cache_ok_def split: prod.splits)

lemma cache_ok_get_workspace_app:
  "get_workspace_app ext w s = (r, s') \<Longrightarrow> cache_ok s \<longrightarrow> cache_ok s'"
  by (auto dest!: get_workspace_app_cases intro: cache_ok_insert)

lemma cache_ok_get_data: "cache_ok s \<Longrightarrow> cache_ok (snd (get_data ext rq req s))"
  unfolding get_data_def check_signature_def call_search_def Let_def
  by (auto split: prod.splits sum.splits dest!: cache_ok_get_workspace_app cache_ok_external_call)

lemma cache_ok_train: "cache_ok s \<Longrightarrow> cache_ok (snd (train ext rq req s))"
  unfolding train_def check_signature_def call_add_def Let_def
  by (auto split: prod.splits sum.splits dest!: cache_ok_get_workspace_app cache_ok_external_call)

lemma cache_ok_train_qna: "cache_ok s \<Longrightarrow> cache_ok (snd (train_qna ext rq req s))"
  unfolding train_qna_def check_signature_def call_add_def Let_def
  by (auto split: prod.splits sum.splits dest!: cache_ok_get_workspace_app cache_ok_external_call)

lemma cache_ok_list_data: "cache_ok s \<Longrightarrow> cache_ok (snd (list_data ext w req s))"
  unfolding list_data_def check_signature_def call_list_data_def Let_def
  by (auto split: prod.splits sum.splits dest!: cache_ok_get_workspace_app cache_ok_external_call)

lemma cache_ok_delete_data:
  "cache_ok s \<Longrightarrow> cache_ok (snd (delete_data ext w name url key req s))"
  unfolding delete_data_def check_signature_def call_delete_data_def Let_def
  by (auto split: prod.splits sum.splits dest!: cache_ok_get_workspace_app cache_ok_external_call)

lemma cache_ok_create_workspace: "cache_ok s \<Longrightarrow> cache_ok (snd (create_workspace ext rq s))"
  unfolding create_workspace_def Let_def
  by (auto split: prod.splits sum.splits dest!: cache_ok_external_call)

text \<open>Every state the process reaches keeps the dictionary injective.\<close>

lemma reachable_cache_ok: "reachable ext s \<Longrightarrow> cache_ok s"
proof (induction rule: reachable.induct)
  case (at_startup x)
  show ?case by (rule cache_ok_startup)
next
  case (outside s x)
  then show ?case by (simp add: cache_ok_def)
qed (simp_all add: cache_ok_create_workspace cache_ok_get_data cache_ok_train
       cache_ok_train_qna cache_ok_list_data cache_ok_delete_data)

text \<open>
  C10.  Resolving \<open>w\<close> leaves the entry of every other identifier as it was, keeps an
  entry \<open>w\<close> already has, and removes none, so the set of cached identifiers only
  grows.  When \<open>w\<close> has no entry and a handle is returned, that handle is the newly
  allocated object (one the dictionary did not hold), stored under \<open>w\<close>; and whenever
  the constructor returns, a handle is returned: nothing asks whether a workspace \<open>w\<close>
  was ever created.
\<close>

theorem get_workspace_app_frame:
  assumes "get_workspace_app ext w s = (r, s')"
  shows "(\<forall>w'. w' \<noteq> w \<longrightarrow> workspace_apps s' w' = workspace_apps s w')
       \<and> (\<forall>h. workspace_apps s w = Some h \<longrightarrow> workspace_apps s' w = Some h)
       \<and> dom (workspace_apps s) \<subseteq> dom (workspace_apps s')
       \<and> (\<forall>h. workspace_apps s w = None \<and> r = Inr h \<longrightarrow>
             workspace_apps s' w = Some h \<and> h = allocated s \<and>
             (cache_ok s \<longrightarrow> h \<notin> ran (workspace_apps s)))
       \<and> (workspace_apps s w = None \<and> (\<exists>x. from_config ext (external s) = (Inr (), x)) \<longrightarrow>
             (\<exists>h. r = Inr h))"
proof -
  have fresh: "allocated s \<notin> ran (workspace_apps s)" if "cache_ok s"
    using that by (auto simp: cache_ok_def ran_def)
  from get_workspace_app_cases[OF assms] show ?thesis
    by (auto simp: note_event_def fresh)
qed

theorem get_workspace_app_frame_witness:
  "fst (get_workspace_app sample ''ghost'' (startup 0)) = Inr 0
   \<and> workspace_apps (snd (get_workspace_app sample ''ghost'' (startup 0))) ''ghost'' = Some 0
   \<and> workspace_apps (snd (get_workspace_app sample ''ghost'' (startup 0))) ''other'' = None
   \<and> dom (workspace_apps (startup (0::nat)))
        \<subseteq> dom (workspace_apps (snd (get_workspace_app sample ''ghost'' (startup 0))))"
  using get_workspace_app_frame
    [where ext = sample and w = "''ghost''" and s = "startup 0", OF surjective_pairing]
  by (simp add: get_workspace_app_def note_event_def external_call_def startup_def sample_def)

text \<open>
  C1.  In every state the process reaches: when resolving \<open>w\<close> returns a handle,
  resolving \<open>w\<close> again returns (it cannot fail) that same handle; two resolutions
  in sequence for distinct identifiers return distinct objects; and the dictionary never
  holds one object under two identifiers.
\<close>

theorem resolve_same_and_distinct:
  assumes "reachable ext s"
  shows "(\<forall>w h s1. get_workspace_app ext w s = (Inr h, s1) \<longrightarrow>
            fst (get_workspace_app ext w s1) = Inr h)
       \<and> (\<forall>w1 w2 h1 h2 s1 s2.
            w1 \<noteq> w2 \<and> get_workspace_app ext w1 s = (Inr h1, s1)
              \<and> get_workspace_app ext w2 s1 = (Inr h2, s2) \<longrightarrow> h1 \<noteq> h2)
       \<and> (\<forall>w1 w2 h1 h2.
            w1 \<noteq> w2 \<and> workspace_apps s w1 = Some h1 \<and> workspace_apps s w2 = Some h2 \<longrightarrow>
            h1 \<noteq> h2)"
proof (intro conjI allI impI)
  fix w h s1
  assume "get_workspace_app ext w s = (Inr h, s1)"
  then have "workspace_apps s1 w = Some h"
    by (auto dest!: get_workspace_app_cases simp: note_event_def)
  then show "fst (get_workspace_app ext w s1) = Inr h"
    by (simp add: get_workspace_app_def note_event_def)
next
  fix w1 w2 h1 h2 s1 s2
  assume a: "w1 \<noteq> w2 \<and> get_workspace_app ext w1 s = (Inr h1, s1)
              \<and> get_workspace_app ext w2 s1 = (Inr h2, s2)"
  have ok: "cache_ok s" using assms by (rule reachable_cache_ok)
  from a ok have ok1: "cache_ok s1" using cache_ok_get_workspace_app by blast
  from a ok1 have ok2: "cache_ok s2" using cache_ok_get_workspace_app by blast
  from a have c1: "workspace_apps s1 w1 = Some h1"
    by (auto dest!: get_workspace_app_cases simp: note_event_def)
  from a have c2: "workspace_apps s2 w2 = Some h2"
    by (auto dest!: get_workspace_app_cases simp: note_event_def)
  from a c1 have "workspace_apps s2 w1 = Some h1"
    by (auto dest!: get_workspace_app_cases simp: note_event_def)
  with ok2 c2 a show "h1 \<noteq> h2" unfolding cache_ok_def by blast
next
  fix w1 w2 h1 h2
  assume "w1 \<noteq> w2 \<and> workspace_apps s w1 = Some h1 \<and> workspace_apps s w2 = Some h2"
  moreover have "cache_ok s" using assms by (rule reachable_cache_ok)
  ultimately show "h1 \<noteq> h2" unfolding cache_ok_def by blast
qed

theorem resolve_same_and_distinct_witness:
  "fst (get_workspace_app sample ''a'' (startup 0)) = Inr 0
   \<and> fst (get_workspace_app sample ''a'' (snd (get_workspace_app sample ''a'' (startup 0)))) = Inr 0
   \<and> fst (get_workspace_app sample ''b'' (snd (get_workspace_app sample ''a'' (startup 0)))) = Inr 1"
  using resolve_same_and_distinct [where ext = sample and s = "startup 0", OF reachable.at_startup]
  by (simp add: get_workspace_app_def note_event_def external_call_def startup_def sample_def)

section \<open>What a request does, event by event\<close>

lemma new_events_append [simp]: "trace s' = trace s @ evs \<Longrightarrow> new_events s s' = evs"
  by (simp add: new_events_def)

lemma engine_calls_append [simp]:
  "engine_calls (xs @ ys) = engine_calls xs @ engine_calls ys"
  by (induction xs rule: engine_calls.induct) simp_all

text \<open>
  For each endpoint: the events it adds begin with the signature check; nothing follows
  a check that did not pass; every engine call is the endpoint's own, on the object
  cached for the workspace; and a request that returns made at least one.
\<close>

lemma get_data_events:
  "\<exists>evs. trace (snd (get_data ext rq req s)) = trace s @ SignatureCheck # evs
     \<and> SignatureCheck \<notin> set evs
     \<and> (verify_hmac_signature (hmac_sha256_digest ext) req (getenv_HMAC_SECRET ext) \<noteq> Inr () \<longrightarrow>
          evs = [] \<and> workspace_apps (snd (get_data ext rq req s)) = workspace_apps s
            \<and> external (snd (get_data ext rq req s)) = external s)
     \<and> list_all (\<lambda>(h, c).
            c = Search (QuestionRequest.question rq) 5
                  (workspace_filter (QuestionRequest.workspace_id rq))
            \<and> workspace_apps (snd (get_data ext rq req s)) (QuestionRequest.workspace_id rq) = Some h)
          (engine_calls evs)
     \<and> length (engine_calls evs) \<le> 2
     \<and> (isl (fst (get_data ext rq req s)) \<or> 1 \<le> length (engine_calls evs))"
  unfolding get_data_def check_signature_def call_search_def Let_def
  by (auto simp: external_call_def note_event_def split: prod.splits sum.splits
           dest!: get_workspace_app_cases)

lemma train_events:
  "\<exists>evs. trace (snd (train ext rq req s)) = trace s @ SignatureCheck # evs
     \<and> SignatureCheck \<notin> set evs
     \<and> (verify_hmac_signature (hmac_sha256_digest ext) req (getenv_HMAC_SECRET ext) \<noteq> Inr () \<longrightarrow>
          evs = [] \<and> workspace_apps (snd (train ext rq req s)) = workspace_apps s
            \<and> external (snd (train ext rq req s)) = external s)
     \<and> list_all (\<lambda>(h, c).
            c = Add (Locator (file_url rq)) (TrainRequest.data_type rq)
                  (workspace_filter (TrainRequest.workspace_id rq))
            \<and> workspace_apps (snd (train ext rq req s)) (TrainRequest.workspace_id rq) = Some h)
          (engine_calls evs)
     \<and> length (engine_calls evs) \<le> 1
     \<and> (isl (fst (train ext rq req s)) \<or> 1 \<le> length (engine_calls evs))
     \<and> (file_url rq = [] \<or> TrainRequest.data_type rq = [] \<longrightarrow> engine_calls evs = [])"
  unfolding train_def check_signature_def call_add_def Let_def
  by (auto simp: external_call_def note_event_def split: prod.splits sum.splits
           dest!: get_workspace_app_cases)

lemma train_qna_events:
  "\<exists>evs. trace (snd (train_qna ext rq req s)) = trace s @ SignatureCheck # evs
     \<and> SignatureCheck \<notin> set evs
     \<and> (verify_hmac_signature (hmac_sha256_digest ext) req (getenv_HMAC_SECRET ext) \<noteq> Inr () \<longrightarrow>
          evs = [] \<and> workspace_apps (snd (train_qna ext rq req s)) = workspace_apps s
            \<and> external (snd (train_qna ext rq req s)) = external s)
     \<and> list_all (\<lambda>(h, c).
            c = Add (Pair (QnARequest.question rq) (answer rq)) (QnARequest.data_type rq)
                  (workspace_filter (QnARequest.workspace_id rq))
            \<and> workspace_apps (snd (train_qna ext rq req s)) (QnARequest.workspace_id rq) = Some h)
          (engine_calls evs)
     \<and> length (engine_calls evs) \<le> 1
     \<and> (isl (fst (train_qna ext rq req s)) \<or> 1 \<le> length (engine_calls evs))"
  unfolding train_qna_def check_signature_def call_add_def Let_def
  by (auto simp: external_call_def note_event_def split: prod.splits sum.splits
           dest!: get_workspace_app_cases)

lemma list_data_events:
  "\<exists>evs. trace (snd (list_data ext w req s)) = trace s @ SignatureCheck # evs
     \<and> SignatureCheck \<notin> set evs
     \<and> (verify_hmac_signature (hmac_sha256_digest ext) req (getenv_HMAC_SECRET ext) \<noteq> Inr () \<longrightarrow>
          evs = [] \<and> workspace_apps (snd (list_data ext w req s)) = workspace_apps s
            \<and> external (snd (list_data ext w req s)) = external s)
     \<and> list_all (\<lambda>(h, c).
            c = ListData (workspace_filter w)
            \<and> workspace_apps (snd (list_data ext w req s)) w = Some h)
          (engine_calls evs)
     \<and> length (engine_calls evs) \<le> 1
     \<and> (isl (fst (list_data ext w req s)) \<or> 1 \<le> length (engine_calls evs))"
  unfolding list_data_def check_signature_def call_list_data_def Let_def
  by (auto simp: external_call_def note_event_def split: prod.splits sum.splits
           dest!: get_workspace_app_cases)

lemma delete_data_events:
  "\<exists>evs. trace (snd (delete_data ext w name url key req s)) = trace s @ SignatureCheck # evs
     \<and> SignatureCheck \<notin> set evs
     \<and> (verify_hmac_signature (hmac_sha256_digest ext) req (getenv_HMAC_SECRET ext) \<noteq> Inr () \<longrightarrow>
          evs = [] \<and> workspace_apps (snd (delete_data ext w name url key req s)) = workspace_apps s
            \<and> external (snd (delete_data ext w name url key req s)) = external s)
     \<and> list_all (\<lambda>(h, c).
            c = DeleteData name (workspace_filter w)
            \<and> workspace_apps (snd (delete_data ext w name url key req s)) w = Some h)
          (engine_calls evs)
     \<and> length (engine_calls evs) \<le> 1
     \<and> (isl (fst (delete_data ext w name url key req s)) \<or> 1 \<le> length (engine_calls evs))"
  unfolding delete_data_def check_signature_def call_delete_data_def Let_def
  by (auto simp: external_call_def note_event_def split: prod.splits sum.splits
           dest!: get_workspace_app_cases)

lemma create_workspace_events:
  "\<exists>evs. trace (snd (create_workspace ext rq s)) = trace s @ evs
     \<and> SignatureCheck \<notin> set evs \<and> engine_calls evs = []
     \<and> (\<forall>w. Resolve w \<notin> set evs)
     \<and> workspace_apps (snd (create_workspace ext rq s)) = workspace_apps s"
  unfolding create_workspace_def Let_def
  by (auto simp: external_call_def split: prod.splits sum.splits)

lemmas run_simps =
  get_data_def train_def train_qna_def list_data_def delete_data_def create_workspace_def
  check_signature_def verify_hmac_signature_def compare_digest_def hexdigest_def hex_byte_def
  hexdigit_def isascii_def get_workspace_app_def note_event_def external_call_def
  call_search_def call_add_def call_list_data_def call_delete_data_def workspace_filter_def
  except_Exception_def except_ValueError_Exception_def new_events_def
  startup_def sample_def signed_def unsigned_def ask_def teach_def teach_pair_def found_def
  Let_def

text \<open>
  C4.  In each of the five data endpoints the signature check is the first thing a
  request does, so the resolution of the handle and every engine call come after it,
  and a request whose check does not pass does nothing else.  Workspace creation makes
  no signature check.
\<close>

theorem signature_check_comes_first:
  "checked_first ext req s (snd (get_data ext question_request req s))
   \<and> checked_first ext req s (snd (train ext train_request req s))
   \<and> checked_first ext req s (snd (train_qna ext qna_request req s))
   \<and> checked_first ext req s (snd (list_data ext w req s))
   \<and> checked_first ext req s (snd (delete_data ext w name url key req s))
   \<and> SignatureCheck \<notin> set (new_events s (snd (create_workspace ext create_request s)))"
proof (intro conjI)
  show "checked_first ext req s (snd (get_data ext question_request req s))"
    using get_data_events[of ext question_request req s] by (auto simp: checked_first_def)
  show "checked_first ext req s (snd (train ext train_request req s))"
    using train_events[of ext train_request req s] by (auto simp: checked_first_def)
  show "checked_first ext req s (snd (train_qna ext qna_request req s))"
    using train_qna_events[of ext qna_request req s] by (auto simp: checked_first_def)
  show "checked_first ext req s (snd (list_data ext w req s))"
    using list_data_events[of ext w req s] by (auto simp: checked_first_def)
  show "checked_first ext req s (snd (delete_data ext w name url key req s))"
    using delete_data_events[of ext w name url key req s] by (auto simp: checked_first_def)
  show "SignatureCheck \<notin> set (new_events s (snd (create_workspace ext create_request s)))"
    using create_workspace_events[of ext create_request s] by auto
qed

theorem signature_check_comes_first_witness:
  "new_events (startup 0) (snd (get_data sample ask unsigned (startup 0))) = [SignatureCheck]
   \<and> new_events (startup 0) (snd (list_data sample ''w1'' signed (startup 0))) =
       [SignatureCheck, Resolve ''w1'', Construct 0,
        EngineCall 0 (ListData [(''workspace_id'', ''w1'')])]
   \<and> verify_hmac_signature (hmac_sha256_digest sample) unsigned (getenv_HMAC_SECRET sample) \<noteq> Inr ()
   \<and> checked_first sample unsigned (startup 0) (snd (get_data sample ask unsigned (startup 0)))"
  using signature_check_comes_first
    [where ext = sample and req = unsigned and s = "startup 0" and question_request = ask]
  by (simp add: run_simps)

section \<open>Delegation to the engine\<close>



text \<open>
  C5.  A query that passed the signature check and resolved its handle \<open>h\<close> makes the
  search; a non-empty answer is returned at once, after that one search.  When the
  answer is empty the same search (same object, question, five documents, same
  metadata) is made exactly once more, and what the second search gives is what the
  request gives: its answer, empty or not, or its exception through the \<open>except\<close>
  clause.
\<close>

theorem get_data_retries_once_on_empty:
  assumes "check_signature ext req s = (Inr (), s0)"
    and "get_workspace_app ext (QuestionRequest.workspace_id rq) s0 = (Inr h, s1)"
    and "app_search ext h (QuestionRequest.question rq) 5
           (workspace_filter (QuestionRequest.workspace_id rq)) (external s1) = (Inr ans, x2)"
  shows "(ans \<noteq> [] \<longrightarrow>
            get_data ext rq req s =
              (Inr ans,
               s1\<lparr>external := x2,
                  trace := trace s1 @
                    [EngineCall h (Search (QuestionRequest.question rq) 5
                       (workspace_filter (QuestionRequest.workspace_id rq)))]\<rparr>))
       \<and> (ans = [] \<longrightarrow>
            (\<forall>r x3. app_search ext h (QuestionRequest.question rq) 5
                       (workspace_filter (QuestionRequest.workspace_id rq)) x2 = (r, x3) \<longrightarrow>
               get_data ext rq req s =
                 ((case r of Inl e \<Rightarrow> Inl (except_Exception e) | Inr ans' \<Rightarrow> Inr ans'),
                  s1\<lparr>external := x3,
                     trace := trace s1 @
                       [EngineCall h (Search (QuestionRequest.question rq) 5
                          (workspace_filter (QuestionRequest.workspace_id rq))),
                        EngineCall h (Search (QuestionRequest.question rq) 5
                          (workspace_filter (QuestionRequest.workspace_id rq)))]\<rparr>)))"
  using assms
  by (auto simp: get_data_def call_search_def external_call_def Let_def split: sum.splits)

theorem get_data_retries_once_on_empty_witness:
  "fst (get_data sample ask signed (startup 0)) = Inr [''What is it?'']
   \<and> new_events (startup 0) (snd (get_data sample ask signed (startup 0))) =
       [SignatureCheck, Resolve ''w1'', Construct 0,
        EngineCall 0 (Search ''What is it?'' 5 [(''workspace_id'', ''w1'')]),
        EngineCall 0 (Search ''What is it?'' 5 [(''workspace_id'', ''w1'')])]
   \<and> fst (get_data sample ask signed (startup 1)) = Inr [''What is it?'']
   \<and> new_events (startup 1) (snd (get_data sample ask signed (startup 1))) =
       [SignatureCheck, Resolve ''w1'', Construct 0,
        EngineCall 0 (Search ''What is it?'' 5 [(''workspace_id'', ''w1'')])]"
proof -
  let ?w = "QuestionRequest.workspace_id ask"
  let ?q = "QuestionRequest.question ask"
  have empty_first:
    "fst (get_data sample ask signed (startup 0)) = Inr [''What is it?'']
     \<and> new_events (startup 0) (snd (get_data sample ask signed (startup 0))) =
       [SignatureCheck, Resolve ''w1'', Construct 0,
        EngineCall 0 (Search ''What is it?'' 5 [(''workspace_id'', ''w1'')]),
        EngineCall 0 (Search ''What is it?'' 5 [(''workspace_id'', ''w1'')])]"
  proof -
    let ?s0 = "snd (check_signature sample signed (startup 0))"
    let ?s1 = "snd (get_workspace_app sample ?w ?s0)"
    have 1: "check_signature sample signed (startup 0) = (Inr (), ?s0)"
      by (simp add: run_simps prod_eq_iff)
    have 2: "get_workspace_app sample ?w ?s0 = (Inr 0, ?s1)"
      by (simp add: run_simps prod_eq_iff)
    have 3: "app_search sample 0 ?q 5 (workspace_filter ?w) (external ?s1) = (Inr [], 1)"
      by (simp add: run_simps)
    have 4: "app_search sample 0 ?q 5 (workspace_filter ?w) 1 = (Inr [''What is it?''], 2)"
      by (simp add: run_simps)
    from get_data_retries_once_on_empty[OF 1 2 3] 4
    have "get_data sample ask signed (startup 0) =
            (Inr [''What is it?''],
             ?s1\<lparr>external := 2,
                 trace := trace ?s1 @
                   [EngineCall 0 (Search ?q 5 (workspace_filter ?w)),
                    EngineCall 0 (Search ?q 5 (workspace_filter ?w))]\<rparr>)"
      by simp
    then show ?thesis by (simp add: run_simps)
  qed
  have found_first:
    "fst (get_data sample ask signed (startup 1)) = Inr [''What is it?'']
     \<and> new_events (startup 1) (snd (get_data sample ask signed (startup 1))) =
       [SignatureCheck, Resolve ''w1'', Construct 0,
        EngineCall 0 (Search ''What is it?'' 5 [(''workspace_id'', ''w1'')])]"
    by (simp add: run_simps)
  from empty_first found_first show ?thesis by simp
qed

section \<open>Ingestion\<close>

text \<open>
  C2, as stated: a request to \<open>/api/train\<close> with an empty \<open>file_url\<close> or \<open>data_type\<close>
  fails with 400 before the handle is resolved.  It does not hold.  Line 140 resolves
  the handle before line 142 looks at the fields: the signed request below, for a
  workspace the process has never seen, is answered 400 after the engine object was
  constructed and stored.  And the signature comes before both: the same request
  without a signature is answered 403.
\<close>

theorem train_empty_field_counterexample:
  "fst (train sample (teach [] ''pdf_file'') signed (startup 0)) =
     Inl (HTTPException 400 ''Both 'file_url' and 'data_type' are required'')
   \<and> new_events (startup 0) (snd (train sample (teach [] ''pdf_file'') signed (startup 0))) =
       [SignatureCheck, Resolve ''w1'', Construct 0]
   \<and> workspace_apps (startup (0::nat)) ''w1'' = None
   \<and> workspace_apps (snd (train sample (teach [] ''pdf_file'') signed (startup 0))) ''w1'' = Some 0
   \<and> fst (train sample (teach [] ''pdf_file'') unsigned (startup 0)) =
       Inl (HTTPException 403 ''Signature missing'')"
  by (simp add: run_simps)

text \<open>
  C2, amended.  A request to \<open>/api/train\<close> with an empty \<open>file_url\<close> or \<open>data_type\<close>
  makes no engine call.  When its signature check fails, that failure is the answer and
  nothing else happened; when the check passes, the handle is resolved first (and
  constructed and stored on first use), and then the answer is 400, unless the
  resolution itself failed.
\<close>

theorem train_empty_field:
  assumes "file_url rq = [] \<or> TrainRequest.data_type rq = []"
  shows "engine_calls (new_events s (snd (train ext rq req s))) = []
       \<and> (\<forall>f s0. check_signature ext req s = (Inl f, s0) \<longrightarrow>
             train ext rq req s = (Inl f, note_event SignatureCheck s))
       \<and> (\<forall>s0 r s1. check_signature ext req s = (Inr (), s0)
              \<and> get_workspace_app ext (TrainRequest.workspace_id rq) s0 = (r, s1) \<longrightarrow>
             train ext rq req s =
               ((case r of
                   Inl f \<Rightarrow> Inl f
                 | Inr h \<Rightarrow>
                     Inl (HTTPException 400 ''Both 'file_url' and 'data_type' are required'')),
                s1))"
proof (intro conjI allI impI)
  show "engine_calls (new_events s (snd (train ext rq req s))) = []"
    using train_events[of ext rq req s] assms by auto
next
  fix f s0
  assume "check_signature ext req s = (Inl f, s0)"
  then show "train ext rq req s = (Inl f, note_event SignatureCheck s)"
    by (auto simp: train_def check_signature_def)
next
  fix s0 r s1
  assume "check_signature ext req s = (Inr (), s0)
            \<and> get_workspace_app ext (TrainRequest.workspace_id rq) s0 = (r, s1)"
  with assms show "train ext rq req s =
               ((case r of
                   Inl f \<Rightarrow> Inl f
                 | Inr h \<Rightarrow>
                     Inl (HTTPException 400 ''Both 'file_url' and 'data_type' are required'')),
                s1)"
    by (auto simp: train_def Let_def split: sum.splits)
qed

theorem train_empty_field_witness:
  "file_url (teach [] ''pdf_file'') = []
   \<and> engine_calls (new_events (startup 0)
        (snd (train sample (teach [] ''pdf_file'') signed (startup 0)))) = []
   \<and> train sample (teach [] ''pdf_file'') unsigned (startup 0) =
       (Inl (HTTPException 403 ''Signature missing''), note_event SignatureCheck (startup 0))
   \<and> train sample (teach [] ''pdf_file'') signed (startup 0) =
       (Inl (HTTPException 400 ''Both 'file_url' and 'data_type' are required''),
        snd (get_workspace_app sample ''w1'' (note_event SignatureCheck (startup 0))))"
proof -
  let ?rq = "teach [] ''pdf_file''"
  let ?s0 = "note_event SignatureCheck (startup (0::nat))"
  let ?s1 = "snd (get_workspace_app sample ''w1'' ?s0)"
  have e: "file_url ?rq = [] \<or> TrainRequest.data_type ?rq = []"
    by (simp add: teach_def)
  have c: "check_signature sample unsigned (startup 0) =
             (Inl (HTTPException 403 ''Signature missing''), ?s0)"
    by (simp add: check_signature_def verify_hmac_signature_def unsigned_def)
  have d: "check_signature sample signed (startup 0) = (Inr (), ?s0)"
    by (simp add: run_simps)
  have g: "get_workspace_app sample (TrainRequest.workspace_id ?rq) ?s0 = (Inr 0, ?s1)"
    by (simp add: run_simps prod_eq_iff)
  note t = train_empty_field[OF e]
  from t[of "startup 0" sample signed] t[of "startup 0" sample unsigned] c d g
  show ?thesis by (simp add: run_simps)
qed

text \<open>
  C6.  For a request to \<open>/api/train/qna\<close> that passed the signature check and resolved
  its handle: a \<open>ValueError\<close> of \<open>add\<close> becomes a 422 whose detail is the error's
  message, any other \<open>Exception\<close> becomes a 500 whose detail is \<open>str(e)\<close>, and when
  \<open>add\<close> returns the answer is the status message.
\<close>

theorem train_qna_error_mapping:
  assumes "check_signature ext req s = (Inr (), s0)"
    and "get_workspace_app ext (QnARequest.workspace_id rq) s0 = (Inr h, s1)"
    and "call_add ext h (Pair (QnARequest.question rq) (answer rq)) (QnARequest.data_type rq)
           (workspace_filter (QnARequest.workspace_id rq)) s1 = (r, s2)"
  shows "(\<forall>m. r = Inl (ValueError m) \<longrightarrow>
            train_qna ext rq req s = (Inl (HTTPException 422 m), s2))
       \<and> (\<forall>e. r = Inl e \<and> \<not> is_ValueError e \<and> is_Exception e \<longrightarrow>
            train_qna ext rq req s = (Inl (HTTPException 500 (str_exn e)), s2))
       \<and> (r = Inr () \<longrightarrow>
            train_qna ext rq req s = (Inr [(''status'', ''Q&A pair added successfully'')], s2))"
  using assms
  by (auto simp: train_qna_def Let_def except_ValueError_Exception_def except_Exception_def)

theorem train_qna_error_mapping_witness:
  "fst (train_qna sample (teach_pair ''bad'') signed (startup 0)) =
     Inl (HTTPException 422 ''Invalid data type'')
   \<and> fst (train_qna sample (teach_pair ''down'') signed (startup 0)) =
     Inl (HTTPException 500 ''Connection refused'')
   \<and> fst (train_qna sample (teach_pair ''qna_pair'') signed (startup 0)) =
     Inr [(''status'', ''Q&A pair added successfully'')]"
proof -
  let ?s0 = "snd (check_signature sample signed (startup 0))"
  let ?s1 = "snd (get_workspace_app sample ''w1'' ?s0)"
  let ?md = "[(''workspace_id'', ''w1'')]"
  let ?src = "Pair ''What is it?'' ''A gateway''"
  have 1: "check_signature sample signed (startup 0) = (Inr (), ?s0)"
    by (simp add: run_simps prod_eq_iff)
  have 2: "get_workspace_app sample (QnARequest.workspace_id (teach_pair dt)) ?s0 = (Inr 0, ?s1)"
    for dt
    by (simp add: run_simps prod_eq_iff)
  have 3: "call_add sample 0
             (Pair (QnARequest.question (teach_pair dt)) (answer (teach_pair dt)))
             (QnARequest.data_type (teach_pair dt))
             (workspace_filter (QnARequest.workspace_id (teach_pair dt))) ?s1 =
           (fst (app_add sample 0 ?src dt ?md 0), snd (call_add sample 0 ?src dt ?md ?s1))"
    for dt
    by (simp add: run_simps prod_eq_iff)
  from train_qna_error_mapping[OF 1 2 3, of "''bad''"]
    train_qna_error_mapping[OF 1 2 3, of "''down''"]
    train_qna_error_mapping[OF 1 2 3, of "''qna_pair''"]
  show ?thesis by (simp add: sample_def)
qed

section \<open>Workspace creation and deletion of data\<close>

text \<open>The rounding never lifts the product to \<open>n\<close>: the index stays below \<open>n\<close>.\<close>

lemma bit_length_le: "n < 2 ^ k \<Longrightarrow> bit_length n \<le> k"
proof (induction n arbitrary: k rule: bit_length.induct)
  case (1 n)
  show ?case
  proof (cases "n = 0")
    case True
    then show ?thesis by (simp add: bit_length.simps)
  next
    case False
    with "1.prems" obtain j where k: "k = Suc j" by (cases k) auto
    with "1.prems" have "n div 2 < 2 ^ j" by auto
    with "1.IH"[OF False] have "bit_length (n div 2) \<le> j" by blast
    with False k show ?thesis by (simp add: bit_length.simps[of n])
  qed
qed

lemma bit_length_ge: "0 < n \<Longrightarrow> 2 ^ (bit_length n - 1) \<le> n"
proof (induction n rule: bit_length.induct)
  case (1 n)
  then have n: "n \<noteq> 0" by simp
  show ?case
  proof (cases "n div 2 = 0")
    case True
    then have "bit_length (n div 2) = 0" by (simp add: bit_length.simps)
    with n "1.prems" show ?thesis by (simp add: bit_length.simps[of n])
  next
    case False
    with "1.IH"[OF n] have ih: "2 ^ (bit_length (n div 2) - 1) \<le> n div 2" by simp
    from False have "0 < bit_length (n div 2)" by (simp add: bit_length.simps[of "n div 2"])
    then have "(2::nat) ^ bit_length (n div 2) = 2 * 2 ^ (bit_length (n div 2) - 1)"
      by (cases "bit_length (n div 2)") simp_all
    with ih have "2 ^ bit_length (n div 2) \<le> 2 * (n div 2)" by simp
    also have "\<dots> \<le> n" by simp
    finally show ?thesis using n by (simp add: bit_length.simps[of n])
  qed
qed

lemma round_binary64_exact: "n < 2 ^ 53 \<Longrightarrow> round_binary64 n = n"
  by (simp add: round_binary64_def bit_length_le)

lemma round_binary64_le:
  assumes "53 < bit_length p"
  shows "round_binary64 p \<le> p + 2 ^ (bit_length p - 54)"
proof -
  define e where "e = bit_length p - 53"
  define half :: nat where "half = 2 ^ (e - 1)"
  from assms have e: "0 < e" by (simp add: e_def)
  then have two: "(2::nat) ^ e = 2 * half" unfolding half_def by (cases e) simp_all
  have split: "p div 2 ^ e * 2 ^ e + p mod 2 ^ e = p" by (rule div_mult_mod_eq)
  have e1: "e - 1 = bit_length p - 54" by (simp add: e_def)
  have down: "p div 2 ^ e * 2 ^ e \<le> p + half" using split by linarith
  have up: "(p div 2 ^ e + 1) * 2 ^ e \<le> p + half" if "half \<le> p mod 2 ^ e"
  proof -
    have "(p div 2 ^ e + 1) * 2 ^ e = p div 2 ^ e * 2 ^ e + 2 * half"
      by (simp add: two algebra_simps)
    with split that show ?thesis by linarith
  qed
  from assms have "round_binary64 p =
      (if half < p mod 2 ^ e \<or> (p mod 2 ^ e = half \<and> odd (p div 2 ^ e))
       then (p div 2 ^ e + 1) * 2 ^ e else p div 2 ^ e * 2 ^ e)"
    by (simp add: round_binary64_def Let_def e_def half_def)
  with up down have "round_binary64 p \<le> p + half" by auto
  then show ?thesis unfolding half_def e1 .
qed

lemma random_index_less:
  assumes "0 < n" and "n < 2 ^ 53"
  shows "random_index r n < n"
proof -
  define M :: nat where "M = 2 ^ 53"
  define a where "a = r mod M"
  define p where "p = a * n"
  have "a < M" unfolding a_def M_def by simp
  then have "a + 1 \<le> M" by simp
  then have "(a + 1) * n \<le> M * n" by (rule mult_le_mono1)
  then have bound: "p + n \<le> n * M" by (simp add: p_def algebra_simps)
  have "round_binary64 p < n * M"
  proof (cases "bit_length p \<le> 53")
    case True
    then have "round_binary64 p = p" by (simp add: round_binary64_def)
    with bound assms(1) show ?thesis by simp
  next
    case False
    then have big: "53 < bit_length p" by simp
    then have "0 < p" by (cases "p = 0") (simp_all add: bit_length.simps)
    then have "2 ^ (bit_length p - 1) \<le> p" by (rule bit_length_ge)
    also from bound assms(1) have "p < n * M" by simp
    finally have lt: "(2::nat) ^ (bit_length p - 1) < n * M" .
    from big have "bit_length p - 1 = (bit_length p - 54) + 53" by simp
    then have "(2::nat) ^ (bit_length p - 1) = 2 ^ (bit_length p - 54) * M"
      unfolding M_def by (simp only: power_add)
    with lt have "2 ^ (bit_length p - 54) * M < n * M" by simp
    then have "2 ^ (bit_length p - 54) < n" by simp
    with round_binary64_le[OF big] bound show ?thesis by linarith
  qed
  then have "round_binary64 p div M < n" by (rule less_mult_imp_div_less)
  moreover from assms(2) have "round_binary64 n = n" by (rule round_binary64_exact)
  ultimately show ?thesis unfolding random_index_def p_def a_def M_def by simp
qed

text \<open>
  The rounding matters: for this draw the exact quotient \<open>r * 62 / 2^53\<close> lies just
  below 32, the binary64 product is 32.0, and the character picked is the one at
  index 32.
\<close>

lemma random_index_rounds_up: "random_index 4648877034705028 62 = 32"
proof -
  have a: "round_binary64 62 = 62"
    by (simp add: round_binary64_def bit_length.simps)
  have b: "round_binary64 288230376151711736 = 288230376151711744"
    by (simp add: round_binary64_def bit_length.simps Let_def)
  show ?thesis by (simp add: random_index_def a b)
qed

lemma choices_length: "length (fst (choices rnd population k x)) = k"
proof (induction k arbitrary: x)
  case 0
  show ?case by simp
next
  case (Suc k)
  obtain r x1 where r: "rnd x = (r, x1)" by (cases "rnd x")
  obtain rest x2 where c: "choices rnd population k x1 = (rest, x2)"
    by (cases "choices rnd population k x1")
  from Suc.IH[of x1] c have "length rest = k" by simp
  then show ?case using r c by simp
qed

lemma length_concat_singletons: "\<forall>p \<in> set ps. length p = 1 \<Longrightarrow> length (concat ps) = length ps"
  by (induction ps) simp_all

lemma choices_in_population:
  assumes "population \<noteq> []" and "length population < 2 ^ 53"
  shows "set (fst (choices rnd population k x)) \<subseteq> set population"
proof (induction k arbitrary: x)
  case 0
  show ?case by simp
next
  case (Suc k)
  obtain r x1 where r: "rnd x = (r, x1)" by (cases "rnd x")
  obtain rest x2 where c: "choices rnd population k x1 = (rest, x2)"
    by (cases "choices rnd population k x1")
  from assms have "random_index r (length population) < length population"
    by (simp add: random_index_less)
  then have "population ! random_index r (length population) \<in> set population"
    by (rule nth_mem)
  moreover from Suc.IH[of x1] c have "set rest \<subseteq> set population" by simp
  ultimately show ?case using r c by simp
qed

lemma choices_numeral:
  "choices rnd population (numeral k) x =
     (case rnd x of (r, x1) \<Rightarrow>
        (case choices rnd population (pred_numeral k) x1 of (rest, x2) \<Rightarrow>
           (population ! random_index r (length population) # rest, x2)))"
  by (simp add: numeral_eq_Suc)

lemma generate_workspace_id_length: "length (fst (generate_workspace_id ext x)) = 12"
proof -
  let ?picked = "fst (choices (random_random ext) (map (\<lambda>c. [c]) (ascii_letters @ digits)) 12 x)"
  have "set ?picked \<subseteq> set (map (\<lambda>c. [c]) (ascii_letters @ digits))"
    by (rule choices_in_population) (simp_all add: ascii_letters_def digits_def)
  then have "\<forall>p \<in> set ?picked. length p = 1" by auto
  then have "length (concat ?picked) = length ?picked"
    by (rule length_concat_singletons)
  then show ?thesis
    by (simp add: generate_workspace_id_def choices_length case_prod_unfold)
qed

lemma generate_workspace_id_alphabet:
  "set (fst (generate_workspace_id ext x)) \<subseteq> set (ascii_letters @ digits)"
proof -
  let ?picked = "fst (choices (random_random ext) (map (\<lambda>c. [c]) (ascii_letters @ digits)) 12 x)"
  have "set ?picked \<subseteq> set (map (\<lambda>c. [c]) (ascii_letters @ digits))"
    by (rule choices_in_population) (simp_all add: ascii_letters_def digits_def)
  then have "set (concat ?picked) \<subseteq> set (ascii_letters @ digits)" by auto
  then show ?thesis
    by (simp add: generate_workspace_id_def case_prod_unfold)
qed

text \<open>
  C7.  The identifier made by \<open>generate_workspace_id\<close> has exactly 12 characters, each
  from the alphabet of the 52 ASCII letters and 10 digits, 62 different characters;
  and when \<open>create_workspace\<close> returns, the identifier in its answer is the one it
  generated.
\<close>

theorem workspace_id_12_alphanumeric:
  "length (fst (generate_workspace_id ext x)) = 12
   \<and> set (fst (generate_workspace_id ext x)) \<subseteq> set (ascii_letters @ digits)
   \<and> length (ascii_letters @ digits) = 62 \<and> distinct (ascii_letters @ digits)
   \<and> (\<forall>answer s'. create_workspace ext request s = (Inr answer, s') \<longrightarrow>
         answer = [(''workspace_id'', fst (generate_workspace_id ext (external s))),
                   (''workspace_name'', workspace_name request)])"
proof (intro conjI allI impI)
  show "length (fst (generate_workspace_id ext x)) = 12"
    by (rule generate_workspace_id_length)
  show "set (fst (generate_workspace_id ext x)) \<subseteq> set (ascii_letters @ digits)"
    by (rule generate_workspace_id_alphabet)
  show "length (ascii_letters @ digits) = 62"
    by (simp add: ascii_letters_def digits_def)
  show "distinct (ascii_letters @ digits)"
    by (simp add: ascii_letters_def digits_def)
next
  fix answer s'
  assume "create_workspace ext request s = (Inr answer, s')"
  then show "answer = [(''workspace_id'', fst (generate_workspace_id ext (external s))),
                       (''workspace_name'', workspace_name request)]"
    by (auto simp: create_workspace_def Let_def split: prod.splits sum.splits)
qed

theorem workspace_id_12_alphanumeric_witness:
  "fst (create_workspace sample found (startup 0)) =
     Inr [(''workspace_id'', ''aejotyCHMRW1''), (''workspace_name'', ''Docs'')]
   \<and> length ''aejotyCHMRW1'' = 12"
proof -
  have pick: "choices (random_random sample) pop 12 0 =
      ([pop ! 0, pop ! 4, pop ! 9, pop ! 14, pop ! 19, pop ! 24,
        pop ! 28, pop ! 33, pop ! 38, pop ! 43, pop ! 48, pop ! 53], 12)"
    if "length pop = 62" for pop :: "string list"
    using that
    by (simp add: sample_def random_index_def choices_numeral)
      (simp add: round_binary64_def bit_length.simps Let_def)
  have len: "length (map (\<lambda>c. [c]) (ascii_letters @ digits)) = 62"
    by (simp add: ascii_letters_def digits_def)
  have g: "generate_workspace_id sample 0 = (''aejotyCHMRW1'', 12)"
    unfolding generate_workspace_id_def pick[OF len]
    by (simp add: ascii_letters_def digits_def)
  have c: "create_workspace sample found (startup 0) =
      (Inr [(''workspace_id'', ''aejotyCHMRW1''), (''workspace_name'', ''Docs'')],
       snd (create_workspace sample found (startup 0)))"
    unfolding create_workspace_def startup_def
    by (simp add: g found_def Let_def) (simp add: sample_def external_call_def found_def)
  from c have f: "fst (create_workspace sample found (startup 0)) =
      Inr [(''workspace_id'', ''aejotyCHMRW1''), (''workspace_name'', ''Docs'')]"
    by (metis fst_conv)
  from workspace_id_12_alphanumeric[where ext = sample and x = 0 and request = found
      and s = "startup 0"]
  have "length (fst (generate_workspace_id sample 0)) = 12" by blast
  with g f show ?thesis by simp
qed

text \<open>
  C9.  When a delete request passed the signature check, resolved its handle and the
  engine's \<open>delete_data\<close> returned, the answer is the status
  \<open>Data <file_name> deleted successfully\<close>, a string that contains the file name.
\<close>

theorem delete_data_confirms_file_name:
  assumes "check_signature ext req s = (Inr (), s0)"
    and "get_workspace_app ext w s0 = (Inr h, s1)"
    and "call_delete_data ext h file_name (workspace_filter w) s1 = (Inr (), s2)"
  shows "delete_data ext w file_name url key req s =
           (Inr [(''status'', ''Data '' @ file_name @ '' deleted successfully'')], s2)
       \<and> sublist file_name (''Data '' @ file_name @ '' deleted successfully'')"
proof
  from assms show "delete_data ext w file_name url key req s =
           (Inr [(''status'', ''Data '' @ file_name @ '' deleted successfully'')], s2)"
    by (simp add: delete_data_def)
  show "sublist file_name (''Data '' @ file_name @ '' deleted successfully'')"
    unfolding sublist_def by blast
qed

theorem delete_data_confirms_file_name_witness:
  "fst (delete_data sample ''w1'' ''report.pdf'' ''u'' ''p'' signed (startup 0)) =
     Inr [(''status'', ''Data report.pdf deleted successfully'')]
   \<and> sublist ''report.pdf'' ''Data report.pdf deleted successfully''"
proof -
  let ?s0 = "snd (check_signature sample signed (startup 0))"
  let ?s1 = "snd (get_workspace_app sample ''w1'' ?s0)"
  let ?s2 = "snd (call_delete_data sample 0 ''report.pdf'' (workspace_filter ''w1'') ?s1)"
  have 1: "check_signature sample signed (startup 0) = (Inr (), ?s0)"
    by (simp add: run_simps prod_eq_iff)
  have 2: "get_workspace_app sample ''w1'' ?s0 = (Inr 0, ?s1)"
    by (simp add: run_simps prod_eq_iff)
  have 3: "call_delete_data sample 0 ''report.pdf'' (workspace_filter ''w1'') ?s1 = (Inr (), ?s2)"
    by (simp add: run_simps prod_eq_iff)
  from delete_data_confirms_file_name[OF 1 2 3, of "''u''" "''p''"]
  show ?thesis by simp
qed

end
